theory Spec2Isabelle
  imports Main
begin

section \<open>JavaScript values\<close>

text \<open>
  The dialog steps of \<^verbatim>\<open>dialogs/mainDialog/index.js\<close> are dynamically typed: the
  result handed to a step is a string after the name prompt, a found-choice object after
  the choice prompt, a number after the number prompt, and the number \<open>-1\<close> when the age
  is skipped. Values are therefore a datatype. Numbers are integers (the profile's age is
  an integer; \<open>NaN\<close>, fractions and the two zeros are not represented), and a string is a
  list of 8-bit characters.
\<close>

datatype jsval =
    JUndefined
  | JNull
  | JBool bool
  | JNum int
  | JStr string
  | JObj "(string \<times> jsval) list"

datatype error = TypeError

text \<open>What \<^verbatim>\<open>if (v)\<close> and \<^verbatim>\<open>v && ...\<close> test.\<close>

fun truthy :: "jsval \<Rightarrow> bool" where
  "truthy JUndefined = False"
| "truthy JNull = False"
| "truthy (JBool b) = b"
| "truthy (JNum n) = (n \<noteq> 0)"
| "truthy (JStr s) = (s \<noteq> [])"
| "truthy (JObj fs) = True"

text \<open>
  The property read \<^verbatim>\<open>v.value\<close>: a TypeError on \<^verbatim>\<open>undefined\<close> and \<^verbatim>\<open>null\<close>, the field of
  an object (or \<^verbatim>\<open>undefined\<close> when it has none), and \<^verbatim>\<open>undefined\<close> on a boolean, a number
  or a string, none of which has a property of that name.
\<close>

fun prop_value :: "jsval \<Rightarrow> error + jsval" where
  "prop_value JUndefined = Inl TypeError"
| "prop_value JNull = Inl TypeError"
| "prop_value (JObj fs) = Inr (case map_of fs ''value'' of None \<Rightarrow> JUndefined | Some v \<Rightarrow> v)"
| "prop_value (JBool b) = Inr JUndefined"
| "prop_value (JNum n) = Inr JUndefined"
| "prop_value (JStr s) = Inr JUndefined"

text \<open>
  Strict equality \<^verbatim>\<open>===\<close>. The source compares with the primitives \<^verbatim>\<open>'yes'\<close> and \<^verbatim>\<open>-1\<close>
  only; an object is never strictly equal to a primitive, and the identity of two
  objects is not represented.
\<close>

fun strict_eq :: "jsval \<Rightarrow> jsval \<Rightarrow> bool" where
  "strict_eq (JObj fs) b = False"
| "strict_eq a (JObj fs) = False"
| "strict_eq a b = (a = b)"

text \<open>
  Decimal rendering of a number inside a template literal, which is what JavaScript
  gives for an integer below \<open>10\<^sup>2\<^sup>1\<close> in absolute value.
\<close>

definition digit_char :: "nat \<Rightarrow> char" where
  "digit_char d = ''0123456789'' ! d"

fun show_nat :: "nat \<Rightarrow> string" where
  "show_nat n = (if n < 10 then [digit_char n] else show_nat (n div 10) @ [digit_char (n mod 10)])"

declare show_nat.simps [simp del]

definition show_int :: "int \<Rightarrow> string" where
  "show_int n = (if n < 0 then CHR ''-'' # show_nat (nat (- n)) else show_nat (nat n))"

text \<open>What \<^verbatim>\<open>${ v }\<close> splices into a template literal.\<close>

fun to_string :: "jsval \<Rightarrow> string" where
  "to_string JUndefined = ''undefined''"
| "to_string JNull = ''null''"
| "to_string (JBool b) = (if b then ''true'' else ''false'')"
| "to_string (JNum n) = show_int n"
| "to_string (JStr s) = s"
| "to_string (JObj fs) = ''[object Object]''"

text \<open>
  \<^verbatim>\<open>String.prototype.trim\<close> and \<^verbatim>\<open>toLowerCase\<close> on 8-bit strings: the white space
  removed is tab, line feed, vertical tab, form feed, carriage return and space, and the
  letters lowered are \<open>A\<close> to \<open>Z\<close>.
\<close>

definition is_space :: "char \<Rightarrow> bool" where
  "is_space c = (c \<in> set [CHR 0x09, CHR 0x0A, CHR 0x0B, CHR 0x0C, CHR 0x0D, CHR '' ''])"

definition trim :: "string \<Rightarrow> string" where
  "trim s = rev (dropWhile is_space (rev (dropWhile is_space s)))"

definition lower_char :: "char \<Rightarrow> char" where
  "lower_char c =
     (case map_of (zip ''ABCDEFGHIJKLMNOPQRSTUVWXYZ'' ''abcdefghijklmnopqrstuvwxyz'') c of
        Some l \<Rightarrow> l
      | None \<Rightarrow> c)"

definition toLowerCase :: "string \<Rightarrow> string" where
  "toLowerCase s = map lower_char s"


section \<open>Data of the bot\<close>

text \<open>
  The user object kept under the \<^verbatim>\<open>'user'\<close> property of the user state. \<open>None\<close> is a
  property the object does not have; reading it gives \<^verbatim>\<open>undefined\<close>.
\<close>

record profile =
  name :: "jsval option"
  age :: "jsval option"

definition empty_profile :: profile where
  "empty_profile = \<lparr>name = None, age = None\<rparr>"

fun field :: "jsval option \<Rightarrow> jsval" where
  "field None = JUndefined"
| "field (Some v) = v"

text \<open>The dialogs registered in the constructor, by their identifiers.\<close>

datatype flow = WHO_ARE_YOU | HELLO_USER

datatype prompt_id = NAME_PROMPT | CONFIRM_PROMPT | AGE_PROMPT

text \<open>The inbound activity, with the fields \<^verbatim>\<open>onTurn\<close> reads.\<close>

record member =
  member_name :: string

record activity =
  act_type :: string
  act_text :: "string option"
  act_membersAdded :: "member list option"

text \<open>
  What a prompt is started with: its question, the \<^verbatim>\<open>retryPrompt\<close> option and the
  choices offered.
\<close>

record prompt_options =
  prompt :: string
  retryPrompt :: "string option"
  choices :: "string list"

text \<open>
  The dialog stack of the conversation state, innermost dialog first: a waterfall with
  the index of its current step, or a prompt waiting for a reply.
\<close>

datatype frame =
    WaterfallFrame flow nat
  | PromptFrame prompt_id prompt_options

text \<open>
  Every effect of a turn on a collaborator is recorded, in order: a message sent, a write
  of the user object, a dialog begun from \<^verbatim>\<open>onTurn\<close>, the stack cleared, and the two
  \<^verbatim>\<open>saveChanges\<close> calls.
\<close>

datatype event =
    Sent string
  | ProfileSet profile
  | Began flow
  | CancelledAll
  | SavedUser
  | SavedConversation

text \<open>
  The turn context: the activity, the user state as loaded for this turn, the
  \<^verbatim>\<open>responded\<close> flag and the effects so far.
\<close>

record turn_context =
  activity :: activity
  user :: "profile option"
  responded :: bool
  trace :: "event list"

text \<open>
  Modelled from the spec: the state accessor (\<^verbatim>\<open>createProperty\<close> is the framework's, not
  in this repository). \<open>get(key, default)\<close> returns the stored value, or the default
  when nothing is stored; \<open>set(key, value)\<close> stores the value.
\<close>

definition userProfile_get :: "turn_context \<Rightarrow> profile \<Rightarrow> profile" where
  "userProfile_get tc dflt = (case user tc of None \<Rightarrow> dflt | Some p \<Rightarrow> p)"

definition userProfile_set :: "profile \<Rightarrow> turn_context \<Rightarrow> turn_context" where
  "userProfile_set p tc = tc\<lparr>user := Some p, trace := trace tc @ [ProfileSet p]\<rparr>"

text \<open>
  Modelled from the spec: \<^verbatim>\<open>sendActivity\<close> of the framework's turn context sends a plain
  text, in order, and raises the host's \<^verbatim>\<open>responded\<close> flag.
\<close>

definition sendActivity :: "string \<Rightarrow> turn_context \<Rightarrow> turn_context" where
  "sendActivity txt tc = tc\<lparr>responded := True, trace := trace tc @ [Sent txt]\<rparr>"


section \<open>The waterfall steps\<close>

text \<open>
  Each step does its work on the turn context \<^verbatim>\<open>dc.context\<close> and then makes exactly one
  call into the dialog engine, as its last statement: \<^verbatim>\<open>dc.prompt\<close>, \<^verbatim>\<open>step.next\<close> or
  \<^verbatim>\<open>dc.end\<close>. A step is the turn context it leaves and that call, which the engine below
  carries out. Its first argument is \<^verbatim>\<open>step.result\<close>.
\<close>

datatype action =
    CallPrompt prompt_id prompt_options
  | CallNext jsval
  | CallEnd

type_synonym step_fn = "jsval \<Rightarrow> turn_context \<Rightarrow> action \<times> turn_context"

text \<open>The question and the third argument of each of the three \<^verbatim>\<open>dc.prompt\<close> calls.\<close>

definition name_options :: prompt_options where
  "name_options =
     \<lparr>prompt = ''What is your name, human?'', retryPrompt = None, choices = []\<rparr>"

definition confirm_options :: prompt_options where
  "confirm_options =
     \<lparr>prompt = ''Do you want to give your age?'', retryPrompt = None,
      choices = [''yes'', ''no'']\<rparr>"

definition age_options :: prompt_options where
  "age_options =
     \<lparr>prompt = ''What is your age?'',
      retryPrompt = Some ''Sorry, please specify your age as a positive number or say cancel.'',
      choices = []\<rparr>"

definition promptForName :: step_fn where
  "promptForName result tc = (CallPrompt NAME_PROMPT name_options, tc)"

definition confirmAgePrompt :: step_fn where
  "confirmAgePrompt result tc =
     (let u = userProfile_get tc empty_profile;
          u = u\<lparr>name := Some result\<rparr>;
          tc = userProfile_set u tc
      in (CallPrompt CONFIRM_PROMPT confirm_options, tc))"

definition promptForAge :: step_fn where
  "promptForAge result tc =
     (if truthy result \<and> (case prop_value result of Inl e \<Rightarrow> False
                                | Inr v \<Rightarrow> strict_eq v (JStr ''yes''))
      then (CallPrompt AGE_PROMPT age_options, tc)
      else (CallNext (JNum (- 1)), tc))"

definition captureAge :: step_fn where
  "captureAge result tc =
     (let u = userProfile_get tc empty_profile
      in if \<not> strict_eq result (JNum (- 1))
         then (let u = u\<lparr>age := Some result\<rparr>;
                   tc = userProfile_set u tc;
                   tc = sendActivity (''I will remember that you are '' @ to_string result
                                      @ '' years old.'') tc
               in (CallEnd, tc))
         else (CallEnd, sendActivity ''No age given.'' tc))"

definition displayProfile :: step_fn where
  "displayProfile result tc =
     (let u = userProfile_get tc empty_profile
      in if truthy (field (age u))
         then (CallEnd, sendActivity (''Your name is '' @ to_string (field (name u))
                                      @ '' and you are '' @ to_string (field (age u))
                                      @ '' years old.'') tc)
         else (CallEnd, sendActivity (''Your name is '' @ to_string (field (name u))
                                      @ '' and you did not share your age.'') tc))"

text \<open>The validator given to the number prompt: \<open>Some v\<close> when it calls \<^verbatim>\<open>step.end(v)\<close>.\<close>

definition ageValidator :: "int \<Rightarrow> turn_context \<Rightarrow> jsval option \<times> turn_context" where
  "ageValidator recognized tc =
     (if recognized < 0
      then (None, sendActivity ''Your age can't be less than zero.'' tc)
      else (Some (JNum recognized), tc))"

text \<open>The steps of the two waterfalls, as the constructor lists them.\<close>

fun steps :: "flow \<Rightarrow> step_fn list" where
  "steps WHO_ARE_YOU = [promptForName, confirmAgePrompt, promptForAge, captureAge]"
| "steps HELLO_USER = [displayProfile]"


section \<open>The dialog engine\<close>

text \<open>
  Modelled from the spec: the recognisers of the three prompts belong to the prompt
  library, which is not part of this repository. A text prompt yields a string, a choice
  prompt the label chosen among the choices offered, a number prompt a number; each
  yields nothing on a reply it does not accept. They are parameters of the engine.
\<close>

record recognizers =
  rec_text :: "string option \<Rightarrow> string option"
  rec_choice :: "string list \<Rightarrow> string option \<Rightarrow> string option"
  rec_number :: "string option \<Rightarrow> int option"

text \<open>
  The found-choice object a choice prompt completes with; of its fields the source reads
  \<^verbatim>\<open>value\<close> only.
\<close>

definition found_choice :: "string \<Rightarrow> jsval" where
  "found_choice v = JObj [(''value'', JStr v)]"

text \<open>
  Modelled from the spec: \<^verbatim>\<open>dc.prompt\<close> of the dialog context. Issuing a prompt pushes it
  on the stack and sends its question; the turn's processing ends there.
\<close>

definition dc_prompt ::
  "prompt_id \<Rightarrow> prompt_options \<Rightarrow> frame list \<Rightarrow> turn_context \<Rightarrow> frame list \<times> turn_context" where
  "dc_prompt p opts stack tc = (PromptFrame p opts # stack, sendActivity (prompt opts) tc)"

text \<open>
  Modelled from the spec: running a waterfall and \<^verbatim>\<open>dc.end\<close>. \<open>runStep f i result below\<close>
  runs step \<open>i\<close> of waterfall \<open>f\<close>, whose frame lies on the frames \<open>below\<close>, and then
  carries out the call the step made: a prompt is pushed on the waterfall's frame,
  \<^verbatim>\<open>step.next\<close> runs the following step at once, \<^verbatim>\<open>dc.end\<close> pops the waterfall and resumes
  the dialog below it. A waterfall run past its last step ends. \<open>resume\<close> hands a result
  to the dialog now on top: a waterfall goes on with its next step, a prompt asks again.
\<close>

fun frame_weight :: "frame \<Rightarrow> nat" where
  "frame_weight (WaterfallFrame f i) = length (steps f) - i + 2"
| "frame_weight (PromptFrame p opts) = 0"

function (sequential) runStep ::
    "flow \<Rightarrow> nat \<Rightarrow> jsval \<Rightarrow> frame list \<Rightarrow> turn_context \<Rightarrow> frame list \<times> turn_context"
  and resume :: "jsval \<Rightarrow> frame list \<Rightarrow> turn_context \<Rightarrow> frame list \<times> turn_context"
where
  "runStep f i result below tc =
     (if i < length (steps f)
      then (case (steps f ! i) result tc of
              (CallPrompt p opts, tc') \<Rightarrow> dc_prompt p opts (WaterfallFrame f i # below) tc'
            | (CallNext r, tc') \<Rightarrow> runStep f (Suc i) r below tc'
            | (CallEnd, tc') \<Rightarrow> resume JUndefined below tc')
      else resume result below tc)"
| "resume result [] tc = ([], tc)"
| "resume result (WaterfallFrame f i # below) tc = runStep f (Suc i) result below tc"
| "resume result (PromptFrame p opts # below) tc =
     (PromptFrame p opts # below, sendActivity (prompt opts) tc)"
  by pat_completeness auto
termination
  by (relation "measure (\<lambda>x. case x of
         Inl (f, i, result, below, tc) \<Rightarrow> sum_list (map frame_weight below) + (length (steps f) - i) + 1
       | Inr (result, stack, tc) \<Rightarrow> sum_list (map frame_weight stack))") auto

declare runStep.simps [simp del]

text \<open>
  Modelled from the spec: \<^verbatim>\<open>dc.begin\<close> pushes a new flow and runs its first step.
\<close>

definition dc_begin :: "flow \<Rightarrow> frame list \<Rightarrow> turn_context \<Rightarrow> frame list \<times> turn_context" where
  "dc_begin f stack tc = runStep f 0 JUndefined stack (tc\<lparr>trace := trace tc @ [Began f]\<rparr>)"

text \<open>
  Modelled from the spec: a pending prompt given the reply of the turn. A reply it
  recognises completes the prompt, which is popped and its value handed to the dialog
  below; the number prompt first passes the recognised number to its validator and
  completes only if the validator ends it. Otherwise the prompt stays pending, and asks
  again with its retry message (its question, when it has none) unless something was
  already sent in this turn.
\<close>

definition reprompt :: "prompt_options \<Rightarrow> turn_context \<Rightarrow> turn_context" where
  "reprompt opts tc =
     (if responded tc then tc
      else sendActivity (case retryPrompt opts of Some r \<Rightarrow> r | None \<Rightarrow> prompt opts) tc)"

fun prompt_continue ::
  "recognizers \<Rightarrow> prompt_id \<Rightarrow> prompt_options \<Rightarrow> frame list \<Rightarrow> turn_context
     \<Rightarrow> frame list \<times> turn_context" where
  "prompt_continue R NAME_PROMPT opts below tc =
     (case rec_text R (act_text (activity tc)) of
        Some v \<Rightarrow> resume (JStr v) below tc
      | None \<Rightarrow> (PromptFrame NAME_PROMPT opts # below, reprompt opts tc))"
| "prompt_continue R CONFIRM_PROMPT opts below tc =
     (case rec_choice R (choices opts) (act_text (activity tc)) of
        Some v \<Rightarrow> resume (found_choice v) below tc
      | None \<Rightarrow> (PromptFrame CONFIRM_PROMPT opts # below, reprompt opts tc))"
| "prompt_continue R AGE_PROMPT opts below tc =
     (case rec_number R (act_text (activity tc)) of
        Some n \<Rightarrow>
          (case ageValidator n tc of
             (Some v, tc') \<Rightarrow> resume v below tc'
           | (None, tc') \<Rightarrow> (PromptFrame AGE_PROMPT opts # below, reprompt opts tc'))
      | None \<Rightarrow> (PromptFrame AGE_PROMPT opts # below, reprompt opts tc))"

text \<open>
  Modelled from the spec: \<^verbatim>\<open>dc.continue\<close> resumes the active dialog, if any, with the
  activity of the turn: a pending prompt is given the reply, a waterfall goes on with its
  next step and the text of the reply as input.
\<close>

fun dc_continue :: "recognizers \<Rightarrow> frame list \<Rightarrow> turn_context \<Rightarrow> frame list \<times> turn_context" where
  "dc_continue R [] tc = ([], tc)"
| "dc_continue R (PromptFrame p opts # below) tc = prompt_continue R p opts below tc"
| "dc_continue R (WaterfallFrame f i # below) tc =
     runStep f (Suc i)
       (case act_text (activity tc) of None \<Rightarrow> JUndefined | Some t \<Rightarrow> JStr t) below tc"

text \<open>Modelled from the spec: \<^verbatim>\<open>dc.cancelAll\<close> clears the stack.\<close>

definition dc_cancelAll :: "frame list \<Rightarrow> turn_context \<Rightarrow> frame list \<times> turn_context" where
  "dc_cancelAll stack tc = ([], tc\<lparr>trace := trace tc @ [CancelledAll]\<rparr>)"


section \<open>The turn controller\<close>

text \<open>
  What outlives a turn: the user object of the user state and the dialog stack of the
  conversation state, as last saved.
\<close>

record storage =
  stored_user :: "profile option"
  stored_dialogState :: "frame list"

text \<open>
  Modelled from the spec: \<^verbatim>\<open>saveChanges\<close> of the two state objects flushes what the turn
  holds of that state to its store.
\<close>

definition userState_saveChanges ::
  "storage \<times> frame list \<times> turn_context \<Rightarrow> storage \<times> frame list \<times> turn_context" where
  "userState_saveChanges x =
     (case x of (st, stack, tc) \<Rightarrow>
        (st\<lparr>stored_user := user tc\<rparr>, stack, tc\<lparr>trace := trace tc @ [SavedUser]\<rparr>))"

definition conversationState_saveChanges ::
  "storage \<times> frame list \<times> turn_context \<Rightarrow> storage \<times> frame list \<times> turn_context" where
  "conversationState_saveChanges x =
     (case x of (st, stack, tc) \<Rightarrow>
        (st\<lparr>stored_dialogState := stack\<rparr>, stack, tc\<lparr>trace := trace tc @ [SavedConversation]\<rparr>))"

text \<open>\<^verbatim>\<open>(turnContext.activity.text || '').trim().toLowerCase()\<close>\<close>

definition utterance_of :: "activity \<Rightarrow> string" where
  "utterance_of a =
     toLowerCase (trim (case act_text a of None \<Rightarrow> [] | Some t \<Rightarrow> if t = [] then [] else t))"

text \<open>\<^verbatim>\<open>turnContext.activity.membersAdded[0].name\<close>, which throws when there is no first member.\<close>

definition first_member_name :: "activity \<Rightarrow> error + string" where
  "first_member_name a =
     (case act_membersAdded a of
        None \<Rightarrow> Inl TypeError
      | Some [] \<Rightarrow> Inl TypeError
      | Some (m # ms) \<Rightarrow> Inr (member_name m))"

fun join :: "string \<Rightarrow> string list \<Rightarrow> string" where
  "join sep [] = []"
| "join sep [x] = x"
| "join sep (x # y # ys) = x @ sep @ join sep (y # ys)"

definition description :: "string list" where
  "description =
     [''I am a bot that demonstrates the TextPrompt and NumberPrompt classes'',
      ''to collect your name and age, then store those values in UserState for later use.'',
      ''Say anything to continue.'']"

text \<open>The three stages of the message branch of \<^verbatim>\<open>onTurn\<close>, in the order of the source.\<close>

definition cancel_check :: "frame list \<Rightarrow> turn_context \<Rightarrow> frame list \<times> turn_context" where
  "cancel_check stack tc =
     (if utterance_of (activity tc) = ''cancel''
      then (if stack \<noteq> []
            then (case dc_cancelAll stack tc of
                    (stack', tc') \<Rightarrow> (stack', sendActivity ''Ok... canceled.'' tc'))
            else (stack, sendActivity ''Nothing to cancel.'' tc))
      else (stack, tc))"

definition start_dialog :: "frame list \<Rightarrow> turn_context \<Rightarrow> frame list \<times> turn_context" where
  "start_dialog stack tc =
     (if \<not> responded tc
      then (let u = userProfile_get tc empty_profile
            in if truthy (field (name u))
               then dc_begin HELLO_USER stack tc
               else dc_begin WHO_ARE_YOU stack tc)
      else (stack, tc))"

definition save_all :: "storage \<Rightarrow> frame list \<Rightarrow> turn_context \<Rightarrow> storage \<times> event list" where
  "save_all st stack tc =
     (case conversationState_saveChanges (userState_saveChanges (st, stack, tc)) of
        (st', stack', tc') \<Rightarrow> (st', trace tc'))"

text \<open>
  The turn context a turn starts with: the activity received, the user state as stored,
  and nothing sent yet.
\<close>

definition new_context :: "storage \<Rightarrow> activity \<Rightarrow> turn_context" where
  "new_context st a = \<lparr>activity = a, user = stored_user st, responded = False, trace = []\<rparr>"

definition onTurn :: "recognizers \<Rightarrow> storage \<Rightarrow> activity \<Rightarrow> error + storage \<times> event list" where
  "onTurn R st a =
     (let tc = new_context st a;
          stack = stored_dialogState st
      in if act_type a = ''message''
         then (case cancel_check stack tc of (stack, tc) \<Rightarrow>
               case dc_continue R stack tc of (stack, tc) \<Rightarrow>
               case start_dialog stack tc of (stack, tc) \<Rightarrow>
                 Inr (save_all st stack tc))
         else if act_type a = ''conversationUpdate''
         then (case first_member_name a of
                 Inl e \<Rightarrow> Inl e
               | Inr n \<Rightarrow>
                   if n \<noteq> ''Bot''
                   then Inr (save_all st stack (sendActivity (join '' '' description) tc))
                   else Inr (save_all st stack tc))
         else Inr (save_all st stack tc))"

text \<open>
  A conversation is a sequence of turns, each starting from what the turn before it
  saved; a turn that throws saves nothing.
\<close>

definition turn :: "recognizers \<Rightarrow> storage \<Rightarrow> activity \<Rightarrow> storage" where
  "turn R st a = (case onTurn R st a of Inl e \<Rightarrow> st | Inr (st', evs) \<Rightarrow> st')"

definition turn_trace :: "recognizers \<Rightarrow> storage \<Rightarrow> activity \<Rightarrow> event list" where
  "turn_trace R st a = (case onTurn R st a of Inl e \<Rightarrow> [] | Inr (st', evs) \<Rightarrow> evs)"

fun turns :: "recognizers \<Rightarrow> storage \<Rightarrow> activity list \<Rightarrow> storage" where
  "turns R st [] = st"
| "turns R st (a # as) = turns R (turn R st a) as"

definition initial :: storage where
  "initial = \<lparr>stored_user = None, stored_dialogState = []\<rparr>"


fun traces :: "recognizers \<Rightarrow> storage \<Rightarrow> activity list \<Rightarrow> event list list" where
  "traces R st [] = []"
| "traces R st (a # as) = turn_trace R st a # traces R (turn R st a) as"

definition stored_profile :: "storage \<Rightarrow> profile" where
  "stored_profile st = (case stored_user st of None \<Rightarrow> empty_profile | Some p \<Rightarrow> p)"

text \<open>The dialogs a trace began, in order.\<close>

fun begun :: "event list \<Rightarrow> flow list" where
  "begun [] = []"
| "begun (Began f # evs) = f # begun evs"
| "begun (e # evs) = begun evs"


text \<open>The \<^verbatim>\<open>saveChanges\<close> calls of a trace, in order.\<close>

fun saved :: "event list \<Rightarrow> event list" where
  "saved [] = []"
| "saved (SavedUser # evs) = SavedUser # saved evs"
| "saved (SavedConversation # evs) = SavedConversation # saved evs"
| "saved (e # evs) = saved evs"

text \<open>The texts a trace sent, in order.\<close>

fun sent :: "event list \<Rightarrow> string list" where
  "sent [] = []"
| "sent (Sent t # evs) = t # sent evs"
| "sent (e # evs) = sent evs"

definition message :: "string \<Rightarrow> activity" where
  "message t = \<lparr>act_type = ''message'', act_text = Some t, act_membersAdded = None\<rparr>"

text \<open>
  Modelled from the spec: one instance of the recognisers, to run the engine on concrete
  conversations. The text prompt accepts any text that is not empty, the choice prompt a
  reply equal to one of the choices, the number prompt a decimal integer with an
  optional minus sign.
\<close>

definition digit_of :: "char \<Rightarrow> nat option" where
  "digit_of c =
     (let n = (of_char c :: nat) in if 48 \<le> n \<and> n \<le> 57 then Some (n - 48) else None)"

fun parse_nat :: "string \<Rightarrow> nat \<Rightarrow> nat option" where
  "parse_nat [] acc = Some acc"
| "parse_nat (c # cs) acc =
     (case digit_of c of None \<Rightarrow> None | Some d \<Rightarrow> parse_nat cs (10 * acc + d))"

definition parse_int :: "string \<Rightarrow> int option" where
  "parse_int s =
     (case s of
        [] \<Rightarrow> None
      | c # cs \<Rightarrow>
          if c = CHR ''-''
          then (if cs = [] then None else map_option (\<lambda>n. - int n) (parse_nat cs 0))
          else map_option int (parse_nat s 0))"

definition plain :: recognizers where
  "plain =
     \<lparr>rec_text = (\<lambda>t. case t of None \<Rightarrow> None | Some s \<Rightarrow> if s = [] then None else Some s),
      rec_choice = (\<lambda>cs t. case t of None \<Rightarrow> None | Some s \<Rightarrow> if s \<in> set cs then Some s else None),
      rec_number = (\<lambda>t. case t of None \<Rightarrow> None | Some s \<Rightarrow> parse_int s)\<rparr>"

text \<open>
  Three stored states to run the model on: the name given and the choice prompt pending,
  a complete profile with no dialog active, and a profile whose name is the empty string.
\<close>

definition ada_asked :: storage where
  "ada_asked =
     \<lparr>stored_user = Some \<lparr>name = Some (JStr ''Ada''), age = None\<rparr>,
      stored_dialogState =
        [PromptFrame CONFIRM_PROMPT confirm_options, WaterfallFrame WHO_ARE_YOU 1]\<rparr>"

definition grace :: storage where
  "grace =
     \<lparr>stored_user = Some \<lparr>name = Some (JStr ''Grace''), age = Some (JNum 34)\<rparr>,
      stored_dialogState = []\<rparr>"


text \<open>
  How a context relates to the one the engine leaves: either nothing happened at all or
  something was sent; what was sent stays sent; no dialog is begun by a step; and the
  activity is the same.
\<close>

definition advance :: "turn_context \<Rightarrow> turn_context \<Rightarrow> bool" where
  "advance tc tc' = ((tc' = tc \<or> responded tc') \<and> (responded tc \<longrightarrow> responded tc')
      \<and> begun (trace tc') = begun (trace tc) \<and> saved (trace tc') = saved (trace tc)
      \<and> activity tc' = activity tc)"


section \<open>Evaluating the engine\<close>


lemma begun_append [simp]: "begun (xs @ ys) = begun xs @ begun ys"
  by (induction xs rule: begun.induct) auto

lemma saved_append [simp]: "saved (xs @ ys) = saved xs @ saved ys"
  by (induction xs rule: saved.induct) auto

lemma sent_append [simp]: "sent (xs @ ys) = sent xs @ sent ys"
  by (induction xs rule: sent.induct) auto

lemma strict_eq_JStr [simp]: "strict_eq v (JStr s) = (v = JStr s)"
  by (cases v) auto

lemma strict_eq_JNum [simp]: "strict_eq v (JNum n) = (v = JNum n)"
  by (cases v) auto

lemma promptForAge_eq:
  "promptForAge r tc =
     (if prop_value r = Inr (JStr ''yes'') then (CallPrompt AGE_PROMPT age_options, tc)
      else (CallNext (JNum (- 1)), tc))"
  by (cases r) (auto simp: promptForAge_def split: sum.splits option.splits)

lemma runStep_who_0:
  "runStep WHO_ARE_YOU 0 r below tc =
     (PromptFrame NAME_PROMPT name_options # WaterfallFrame WHO_ARE_YOU 0 # below,
      sendActivity ''What is your name, human?'' tc)"
  by (simp add: runStep.simps promptForName_def dc_prompt_def name_options_def)

lemma runStep_who_1:
  "runStep WHO_ARE_YOU (Suc 0) r below tc =
     (PromptFrame CONFIRM_PROMPT confirm_options # WaterfallFrame WHO_ARE_YOU (Suc 0) # below,
      sendActivity ''Do you want to give your age?''
        (userProfile_set ((userProfile_get tc empty_profile)\<lparr>name := Some r\<rparr>) tc))"
  by (simp add: runStep.simps confirmAgePrompt_def dc_prompt_def confirm_options_def Let_def)

lemma runStep_who_3:
  "runStep WHO_ARE_YOU (Suc (Suc (Suc 0))) r below tc = resume JUndefined below (snd (captureAge r tc))"
  by (simp add: runStep.simps captureAge_def Let_def)

lemma runStep_who_2:
  "runStep WHO_ARE_YOU (Suc (Suc 0)) r below tc =
     (if prop_value r = Inr (JStr ''yes'')
      then (PromptFrame AGE_PROMPT age_options # WaterfallFrame WHO_ARE_YOU (Suc (Suc 0)) # below,
            sendActivity ''What is your age?'' tc)
      else runStep WHO_ARE_YOU (Suc (Suc (Suc 0))) (JNum (- 1)) below tc)"
  by (simp add: runStep.simps[of _ "Suc (Suc 0)"] promptForAge_eq dc_prompt_def age_options_def)

lemma runStep_who_past:
  "runStep WHO_ARE_YOU (Suc (Suc (Suc (Suc i)))) r below tc = resume r below tc"
  by (simp add: runStep.simps)

lemma runStep_hello_0:
  "runStep HELLO_USER 0 r below tc = resume JUndefined below (snd (displayProfile r tc))"
  by (simp add: runStep.simps displayProfile_def Let_def)

lemma runStep_hello_past:
  "runStep HELLO_USER (Suc i) r below tc = resume r below tc"
  by (simp add: runStep.simps)

lemmas runStep_eqs = runStep_who_0 runStep_who_1 runStep_who_2 runStep_who_3 runStep_who_past
  runStep_hello_0 runStep_hello_past


lemma advance_refl [simp]: "advance tc tc"
  by (simp add: advance_def)

lemma advance_trans: "advance a b \<Longrightarrow> advance b c \<Longrightarrow> advance a c"
  by (auto simp: advance_def)

lemma advance_send [simp]: "advance tc (sendActivity t tc)"
  by (simp add: advance_def sendActivity_def)

lemma advance_captureAge: "advance tc (snd (captureAge r tc))"
  by (simp add: advance_def captureAge_def sendActivity_def userProfile_set_def Let_def)

lemma advance_displayProfile: "advance tc (snd (displayProfile r tc))"
  by (simp add: advance_def displayProfile_def sendActivity_def Let_def)

lemma advance_confirm: "advance tc (sendActivity t (userProfile_set p tc))"
  by (simp add: advance_def sendActivity_def userProfile_set_def)

lemma advance_resume: "advance tc (snd (resume r stack tc))"
proof (induction stack arbitrary: r tc)
  case Nil
  then show ?case by simp
next
  case (Cons fr below)
  show ?case
  proof (cases fr)
    case (PromptFrame p opts)
    then show ?thesis by simp
  next
    case (WaterfallFrame f i)
    have cap: "advance tc (snd (resume r' below (snd (captureAge r'' tc))))" for r' r''
      using advance_trans [OF advance_captureAge Cons.IH] .
    have disp: "advance tc (snd (resume r' below (snd (displayProfile r'' tc))))" for r' r''
      using advance_trans [OF advance_displayProfile Cons.IH] .
    show ?thesis
    proof (cases f)
      case WHO_ARE_YOU
      consider "i = 0" | "i = Suc 0" | "i = Suc (Suc 0)" | j where "i = Suc (Suc (Suc j))"
        by (metis not0_implies_Suc)
      then show ?thesis
        using WaterfallFrame WHO_ARE_YOU cap Cons.IH
        by cases (simp_all add: runStep_eqs advance_confirm)
    next
      case HELLO_USER
      then show ?thesis using WaterfallFrame Cons.IH by (simp add: runStep_eqs)
    qed
  qed
qed


lemma runStep_who_2n:
  "runStep WHO_ARE_YOU 2 r below tc =
     (if prop_value r = Inr (JStr ''yes'')
      then (PromptFrame AGE_PROMPT age_options # WaterfallFrame WHO_ARE_YOU 2 # below,
            sendActivity ''What is your age?'' tc)
      else resume JUndefined below (snd (captureAge (JNum (- 1)) tc)))"
  using runStep_who_2 [of r below tc] by (simp add: numeral_2_eq_2 runStep_who_3)

lemma runStep_who_3n:
  "runStep WHO_ARE_YOU 3 r below tc = resume JUndefined below (snd (captureAge r tc))"
  using runStep_who_3 [of r below tc] by (simp add: numeral_3_eq_3)

lemma advance_runStep: "advance tc (snd (runStep f i r below tc))"
proof (cases i)
  case 0
  show ?thesis
  proof (cases f)
    case WHO_ARE_YOU
    then show ?thesis using 0 by (simp add: runStep_eqs)
  next
    case HELLO_USER
    then show ?thesis
      using 0 advance_trans [OF advance_displayProfile advance_resume]
      by (simp add: runStep_eqs)
  qed
next
  case (Suc j)
  then show ?thesis
    using advance_resume [of tc r "WaterfallFrame f j # below"] by simp
qed

lemma advance_reprompt [simp]: "advance tc (reprompt opts tc)"
  by (simp add: reprompt_def)

lemma responded_reprompt [simp]: "responded (reprompt opts tc)"
  by (simp add: reprompt_def sendActivity_def)

lemma advance_continue: "advance tc (snd (dc_continue R stack tc))"
proof (cases stack)
  case Nil
  then show ?thesis by simp
next
  case (Cons fr below)
  show ?thesis
  proof (cases fr)
    case (WaterfallFrame f i)
    then show ?thesis using Cons by (simp add: advance_runStep)
  next
    case (PromptFrame p opts)
    show ?thesis
    proof (cases p)
      case NAME_PROMPT
      then show ?thesis using Cons PromptFrame
        by (simp add: advance_resume split: option.splits)
    next
      case CONFIRM_PROMPT
      then show ?thesis using Cons PromptFrame
        by (simp add: advance_resume split: option.splits)
    next
      case AGE_PROMPT
      have "advance tc (reprompt opts (sendActivity t tc))" for t
        by (rule advance_trans [OF advance_send advance_reprompt])
      then show ?thesis using Cons PromptFrame AGE_PROMPT
        by (simp add: advance_resume ageValidator_def split: option.splits)
    qed
  qed
qed


section \<open>Evaluating a turn\<close>

lemma onTurn_message:
  "act_type a = ''message'' \<Longrightarrow>
   onTurn R st a =
     (case cancel_check (stored_dialogState st) (new_context st a) of (stack, tc) \<Rightarrow>
      case dc_continue R stack tc of (stack, tc) \<Rightarrow>
      case start_dialog stack tc of (stack, tc) \<Rightarrow> Inr (save_all st stack tc))"
  by (simp add: onTurn_def new_context_def Let_def)

lemma save_all_eq:
  "save_all st stack tc =
     (\<lparr>stored_user = user tc, stored_dialogState = stack\<rparr>, trace tc @ [SavedUser, SavedConversation])"
  by (simp add: save_all_def userState_saveChanges_def conversationState_saveChanges_def)


lemma onTurn_noncancel:
  assumes "act_type a = ''message''" and "utterance_of a \<noteq> ''cancel''"
  shows "onTurn R st a =
     (case dc_continue R (stored_dialogState st) (new_context st a) of (stack, tc) \<Rightarrow>
      case start_dialog stack tc of (stack, tc) \<Rightarrow> Inr (save_all st stack tc))"
  using assms by (simp add: onTurn_message cancel_check_def new_context_def)







lemma user_new_context [simp]: "userProfile_get (new_context st a) empty_profile = stored_profile st"
  by (simp add: userProfile_get_def new_context_def stored_profile_def)

lemma displayProfile_keeps:
  "user (snd (displayProfile r tc)) = user tc \<and> responded (snd (displayProfile r tc))"
  by (simp add: displayProfile_def sendActivity_def Let_def)

lemma onTurn_idle:
  assumes "act_type a = ''message''" and "utterance_of a \<noteq> ''cancel''"
    and "stored_dialogState st = []"
  shows "onTurn R st a =
     Inr (if truthy (field (name (stored_profile st)))
          then (st, trace (snd (displayProfile JUndefined
                                 ((new_context st a)\<lparr>trace := [Began HELLO_USER]\<rparr>)))
                    @ [SavedUser, SavedConversation])
          else (st\<lparr>stored_dialogState :=
                       [PromptFrame NAME_PROMPT name_options, WaterfallFrame WHO_ARE_YOU 0]\<rparr>,
                [Began WHO_ARE_YOU, Sent ''What is your name, human?'', SavedUser,
                 SavedConversation]))"
  using assms
  by (simp add: onTurn_noncancel start_dialog_def dc_begin_def runStep_eqs save_all_eq
      displayProfile_keeps)
     (simp add: new_context_def sendActivity_def)













lemma message_simps [simp]:
  "act_type (message t) = ''message''" "act_text (message t) = Some t"
  by (simp_all add: message_def)

lemmas text_eval = utterance_of_def trim_def toLowerCase_def lower_char_def is_space_def
  show_int_def show_nat.simps digit_char_def parse_int_def digit_of_def


section \<open>The age-choice step\<close>

text \<open>
  Claim C5. In \<^verbatim>\<open>promptForAge\<close>, a result whose \<^verbatim>\<open>value\<close> is exactly the string
  \<^verbatim>\<open>'yes'\<close> issues the number prompt "What is your age?" with the retry message "Sorry,
  please specify your age as a positive number or say cancel."; the prompt is pushed on
  the waterfall and its question is the one message sent. Every other result, an absent
  one included, goes on at once to the next step with the result \<open>-1\<close>; no prompt is
  pushed, and what that step sends is "No age given.".
\<close>

theorem promptForAge_asks_only_on_yes:
  "(prop_value r = Inr (JStr ''yes'') \<longrightarrow>
      promptForAge r tc = (CallPrompt AGE_PROMPT age_options, tc) \<and>
      prompt age_options = ''What is your age?'' \<and>
      retryPrompt age_options =
        Some ''Sorry, please specify your age as a positive number or say cancel.'' \<and>
      runStep WHO_ARE_YOU 2 r below tc =
        (PromptFrame AGE_PROMPT age_options # WaterfallFrame WHO_ARE_YOU 2 # below,
         sendActivity ''What is your age?'' tc)) \<and>
   (prop_value r \<noteq> Inr (JStr ''yes'') \<longrightarrow>
      promptForAge r tc = (CallNext (JNum (- 1)), tc) \<and>
      runStep WHO_ARE_YOU 2 r below tc = runStep WHO_ARE_YOU 3 (JNum (- 1)) below tc \<and>
      runStep WHO_ARE_YOU 2 r below tc =
        resume JUndefined below (sendActivity ''No age given.'' tc))"
  by (simp add: promptForAge_eq runStep_who_2n runStep_who_3n age_options_def captureAge_def)

theorem promptForAge_asks_only_on_yes_witness:
  "prop_value (found_choice ''yes'') = Inr (JStr ''yes'') \<and>
   runStep WHO_ARE_YOU 2 (found_choice ''yes'') [] (new_context initial (message ''yes'')) =
     ([PromptFrame AGE_PROMPT age_options, WaterfallFrame WHO_ARE_YOU 2],
      sendActivity ''What is your age?'' (new_context initial (message ''yes''))) \<and>
   prop_value (found_choice ''no'') \<noteq> Inr (JStr ''yes'') \<and>
   prop_value JUndefined \<noteq> Inr (JStr ''yes'') \<and>
   promptForAge JUndefined (new_context initial (message ''no'')) =
     (CallNext (JNum (- 1)), new_context initial (message ''no'')) \<and>
   runStep WHO_ARE_YOU 2 (found_choice ''no'') [] (new_context initial (message ''no'')) =
     ([], sendActivity ''No age given.'' (new_context initial (message ''no'')))"
proof -
  have yes: "prop_value (found_choice ''yes'') = Inr (JStr ''yes'')"
    and no: "prop_value (found_choice ''no'') \<noteq> Inr (JStr ''yes'')"
    and absent: "prop_value JUndefined \<noteq> Inr (JStr ''yes'')"
    by (simp_all add: found_choice_def)
  show ?thesis
    using yes no absent
      promptForAge_asks_only_on_yes
        [of "found_choice ''yes''" "new_context initial (message ''yes'')" "[]"]
      promptForAge_asks_only_on_yes
        [of "found_choice ''no''" "new_context initial (message ''no'')" "[]"]
      promptForAge_asks_only_on_yes [of JUndefined "new_context initial (message ''no'')" "[]"]
    unfolding resume.simps by blast
qed


section \<open>The final step of the onboarding flow\<close>



lemma turn_eval:
  "onTurn R st a = Inr (st', evs) \<Longrightarrow> turn R st a = st' \<and> turn_trace R st a = evs"
  by (simp add: turn_def turn_trace_def)


lemma plain_simps [simp]:
  "rec_text plain (Some (c # cs)) = Some (c # cs)"
  "rec_choice plain cs' (Some s) = (if s \<in> set cs' then Some s else None)"
  "rec_number plain (Some s) = parse_int s"
  by (simp_all add: plain_def)


section \<open>The validator of the number prompt\<close>



section \<open>Cancelling\<close>



section \<open>A message without text\<close>

text \<open>
  Claim C10. On a message whose text is absent or empty, \<^verbatim>\<open>onTurn\<close> does not throw:
  the utterance is the empty string, which is not "cancel", the cancel check does
  nothing, and the turn is the resume-and-begin logic of any message that is not a
  cancel, followed by the two saves.
\<close>

theorem message_without_text_is_not_cancel:
  assumes "act_type a = ''message''" and "act_text a = None \<or> act_text a = Some []"
  shows "utterance_of a = [] \<and> utterance_of a \<noteq> ''cancel'' \<and>
         cancel_check (stored_dialogState st) (new_context st a) =
           (stored_dialogState st, new_context st a) \<and>
         (\<exists>st' evs. onTurn R st a = Inr (st', evs)) \<and>
         onTurn R st a =
           (case dc_continue R (stored_dialogState st) (new_context st a) of (stack, tc) \<Rightarrow>
            case start_dialog stack tc of (stack, tc) \<Rightarrow> Inr (save_all st stack tc))"
proof -
  have u: "utterance_of a = []"
    using assms(2) by (auto simp: utterance_of_def trim_def toLowerCase_def)
  then have n: "utterance_of a \<noteq> ''cancel''" by simp
  have t: "onTurn R st a =
           (case dc_continue R (stored_dialogState st) (new_context st a) of (stack, tc) \<Rightarrow>
            case start_dialog stack tc of (stack, tc) \<Rightarrow> Inr (save_all st stack tc))"
    using assms(1) n by (rule onTurn_noncancel)
  have c: "cancel_check (stored_dialogState st) (new_context st a) =
           (stored_dialogState st, new_context st a)"
    using n by (simp add: cancel_check_def new_context_def)
  have e: "\<exists>st' evs. onTurn R st a = Inr (st', evs)"
    unfolding t by (simp add: save_all_eq split: prod.splits)
  show ?thesis using u n c e t by blast
qed

theorem message_without_text_is_not_cancel_witness:
  "(act_type \<lparr>act_type = ''message'', act_text = None, act_membersAdded = None\<rparr> = ''message'' \<and>
    (act_text \<lparr>act_type = ''message'', act_text = None, act_membersAdded = None\<rparr> = None \<or>
     act_text \<lparr>act_type = ''message'', act_text = None, act_membersAdded = None\<rparr> = Some [])) \<and>
   utterance_of \<lparr>act_type = ''message'', act_text = None, act_membersAdded = None\<rparr> = [] \<and>
   (\<exists>st' evs. onTurn plain initial
       \<lparr>act_type = ''message'', act_text = None, act_membersAdded = None\<rparr> = Inr (st', evs)) \<and>
   (act_type (message []) = ''message'' \<and>
    (act_text (message []) = None \<or> act_text (message []) = Some [])) \<and>
   utterance_of (message []) \<noteq> ''cancel'' \<and>
   (\<exists>st' evs. onTurn plain ada_asked (message []) = Inr (st', evs))"
proof -
  let ?a = "\<lparr>act_type = ''message'', act_text = None, act_membersAdded = None\<rparr>"
  have a1: "act_type ?a = ''message''" and a2: "act_text ?a = None \<or> act_text ?a = Some []"
    by simp_all
  have b1: "act_type (message []) = ''message''"
    and b2: "act_text (message []) = None \<or> act_text (message []) = Some []"
    by simp_all
  show ?thesis
    using a1 a2 b1 b2 message_without_text_is_not_cancel [OF a1 a2, of initial plain]
      message_without_text_is_not_cancel [OF b1 b2, of ada_asked plain]
    by blast
qed

section \<open>The greeting flow run twice\<close>

text \<open>
  Claim C9. For every profile, \<^verbatim>\<open>displayProfile\<close> run twice in a row, as a step or as
  the flow \<open>HELLO_USER\<close> begun on an empty stack, sends the same sentence both times,
  writes nothing and leaves the user object as it was. So two messages in a row to a bot
  with no dialog active and a truthy stored name each leave the stored state unchanged
  and are answered with the same single sentence.
\<close>

theorem greeting_repeatable:
  "(\<exists>s. displayProfile r tc = (CallEnd, tc\<lparr>responded := True, trace := trace tc @ [Sent s]\<rparr>) \<and>
        displayProfile r' (snd (displayProfile r tc)) =
          (CallEnd, tc\<lparr>responded := True, trace := trace tc @ [Sent s, Sent s]\<rparr>) \<and>
        dc_begin HELLO_USER [] tc =
          ([], tc\<lparr>responded := True, trace := trace tc @ [Began HELLO_USER, Sent s]\<rparr>) \<and>
        dc_begin HELLO_USER [] (snd (dc_begin HELLO_USER [] tc)) =
          ([], tc\<lparr>responded := True,
                 trace := trace tc @ [Began HELLO_USER, Sent s, Began HELLO_USER, Sent s]\<rparr>)) \<and>
   user (snd (displayProfile r tc)) = user tc \<and>
   user (snd (displayProfile r' (snd (displayProfile r tc)))) = user tc \<and>
   user (snd (dc_begin HELLO_USER [] (snd (dc_begin HELLO_USER [] tc)))) = user tc \<and>
   (stored_dialogState st = [] \<and> truthy (field (name (stored_profile st))) \<and>
    act_type a1 = ''message'' \<and> utterance_of a1 \<noteq> ''cancel'' \<and>
    act_type a2 = ''message'' \<and> utterance_of a2 \<noteq> ''cancel'' \<longrightarrow>
      turn R st a1 = st \<and> turns R st [a1, a2] = st \<and>
      (\<exists>s. map sent (traces R st [a1, a2]) = [[s], [s]]))"
proof -
  let ?s = "''Your name is '' @ to_string (field (name (userProfile_get tc empty_profile))) @
    (if truthy (field (age (userProfile_get tc empty_profile)))
     then '' and you are '' @ to_string (field (age (userProfile_get tc empty_profile))) @ '' years old.''
     else '' and you did not share your age.'')"
  have d: "displayProfile q tc' = (CallEnd, tc'\<lparr>responded := True, trace := trace tc' @ [Sent ?s]\<rparr>)"
    if "user tc' = user tc" for q tc'
    using that by (simp add: displayProfile_def sendActivity_def userProfile_get_def Let_def)
  have b: "dc_begin HELLO_USER [] tc' =
      ([], tc'\<lparr>responded := True, trace := trace tc' @ [Began HELLO_USER, Sent ?s]\<rparr>)"
    if "user tc' = user tc" for tc'
    using that d [of "tc'\<lparr>trace := trace tc' @ [Began HELLO_USER]\<rparr>"]
    by (simp add: dc_begin_def runStep_eqs)
  have first: "\<exists>s. displayProfile r tc = (CallEnd, tc\<lparr>responded := True, trace := trace tc @ [Sent s]\<rparr>) \<and>
        displayProfile r' (snd (displayProfile r tc)) =
          (CallEnd, tc\<lparr>responded := True, trace := trace tc @ [Sent s, Sent s]\<rparr>) \<and>
        dc_begin HELLO_USER [] tc =
          ([], tc\<lparr>responded := True, trace := trace tc @ [Began HELLO_USER, Sent s]\<rparr>) \<and>
        dc_begin HELLO_USER [] (snd (dc_begin HELLO_USER [] tc)) =
          ([], tc\<lparr>responded := True,
                 trace := trace tc @ [Began HELLO_USER, Sent s, Began HELLO_USER, Sent s]\<rparr>)"
    by (rule exI [of _ ?s]) (simp add: d b)
  have users: "user (snd (displayProfile r tc)) = user tc"
    "user (snd (displayProfile r' (snd (displayProfile r tc)))) = user tc"
    "user (snd (dc_begin HELLO_USER [] (snd (dc_begin HELLO_USER [] tc)))) = user tc"
    by (simp_all add: d b)
  have turns: "turn R st a1 = st \<and> turns R st [a1, a2] = st \<and>
      (\<exists>s. map sent (traces R st [a1, a2]) = [[s], [s]])"
    if h: "stored_dialogState st = [] \<and> truthy (field (name (stored_profile st))) \<and>
      act_type a1 = ''message'' \<and> utterance_of a1 \<noteq> ''cancel'' \<and>
      act_type a2 = ''message'' \<and> utterance_of a2 \<noteq> ''cancel''"
  proof -
    have t: "onTurn R st x =
        Inr (st, trace (snd (displayProfile JUndefined
                               ((new_context st x)\<lparr>trace := [Began HELLO_USER]\<rparr>)))
                 @ [SavedUser, SavedConversation])"
      if "act_type x = ''message''" "utterance_of x \<noteq> ''cancel''" for x
      using that h onTurn_idle [of x st R] by simp
    have s: "sent (trace (snd (displayProfile JUndefined
                               ((new_context st x)\<lparr>trace := [Began HELLO_USER]\<rparr>)))
                 @ [SavedUser, SavedConversation]) =
        [''Your name is '' @ to_string (field (name (stored_profile st))) @
          (if truthy (field (age (stored_profile st)))
           then '' and you are '' @ to_string (field (age (stored_profile st))) @ '' years old.''
           else '' and you did not share your age.'')]" for x
      by (simp add: displayProfile_def sendActivity_def userProfile_get_def Let_def
          new_context_def stored_profile_def)
    show ?thesis
      using h turn_eval [OF t [of a1]] turn_eval [OF t [of a2]] s by simp
  qed
  show ?thesis using first users turns by blast
qed

theorem greeting_repeatable_witness:
  "(stored_dialogState grace = [] \<and> truthy (field (name (stored_profile grace))) \<and>
    act_type (message ''hi'') = ''message'' \<and> utterance_of (message ''hi'') \<noteq> ''cancel'' \<and>
    act_type (message ''hi'') = ''message'' \<and> utterance_of (message ''hi'') \<noteq> ''cancel'') \<and>
   turn plain grace (message ''hi'') = grace \<and>
   turns plain grace [message ''hi'', message ''hi''] = grace \<and>
   (\<exists>s. map sent (traces plain grace [message ''hi'', message ''hi'']) = [[s], [s]]) \<and>
   sent (turn_trace plain grace (message ''hi'')) =
     [''Your name is Grace and you are 34 years old.'']"
proof -
  have h: "stored_dialogState grace = [] \<and> truthy (field (name (stored_profile grace))) \<and>
    act_type (message ''hi'') = ''message'' \<and> utterance_of (message ''hi'') \<noteq> ''cancel'' \<and>
    act_type (message ''hi'') = ''message'' \<and> utterance_of (message ''hi'') \<noteq> ''cancel''"
    by (simp add: grace_def stored_profile_def text_eval)
  have s: "sent (turn_trace plain grace (message ''hi'')) =
     [''Your name is Grace and you are 34 years old.'']"
    by code_simp
  show ?thesis
    using h s
      greeting_repeatable
        [where st = grace and ?a1.0 = "message ''hi''" and ?a2.0 = "message ''hi''" and R = plain]
    by blast
qed



section \<open>Age beside a name\<close>




section \<open>Which flow a turn begins\<close>




section \<open>The greeting flow\<close>

lemma displayProfile_by_truthiness:
  "displayProfile r tc =
     (CallEnd,
      sendActivity
        (''Your name is '' @ to_string (field (name (userProfile_get tc empty_profile))) @
         (if truthy (field (age (userProfile_get tc empty_profile)))
          then '' and you are '' @ to_string (field (age (userProfile_get tc empty_profile))) @
               '' years old.''
          else '' and you did not share your age.'')) tc)"
  by (simp add: displayProfile_def Let_def)

text \<open>
  Claim C1 fails on the code at the age zero. The validator accepts zero and
  \<^verbatim>\<open>captureAge\<close> stores it and answers "I will remember that you are 0 years old.", but
  \<^verbatim>\<open>displayProfile\<close> tests \<^verbatim>\<open>if (user.age)\<close>, which is false for zero: the next greeting
  says the age was not shared.
\<close>

theorem age_zero_is_greeted_as_not_shared:
  "turns plain initial [message ''hi'', message ''Ada'', message ''yes'', message ''0''] =
     \<lparr>stored_user = Some \<lparr>name = Some (JStr ''Ada''), age = Some (JNum 0)\<rparr>,
      stored_dialogState = []\<rparr> \<and>
   map sent (traces plain initial
               [message ''hi'', message ''Ada'', message ''yes'', message ''0'', message ''hi'']) =
     [[''What is your name, human?''],
      [''Do you want to give your age?''],
      [''What is your age?''],
      [''I will remember that you are 0 years old.''],
      [''Your name is Ada and you did not share your age.'']] \<and>
   displayProfile JUndefined
       \<lparr>activity = message ''hi'',
        user = Some \<lparr>name = Some (JStr ''Ada''), age = Some (JNum 0)\<rparr>,
        responded = False, trace = []\<rparr> =
     (CallEnd,
      \<lparr>activity = message ''hi'',
       user = Some \<lparr>name = Some (JStr ''Ada''), age = Some (JNum 0)\<rparr>,
       responded = True,
       trace = [Sent ''Your name is Ada and you did not share your age.'']\<rparr>)"
  by code_simp

section \<open>Saving at the end of a turn\<close>

lemma saved_cancel_check:
  "saved (trace (snd (cancel_check stack tc))) = saved (trace tc)"
  by (simp add: cancel_check_def dc_cancelAll_def sendActivity_def)

lemma saved_start_dialog:
  "saved (trace (snd (start_dialog stack tc))) = saved (trace tc)"
proof -
  have "saved (trace (snd (dc_begin f stack tc))) = saved (trace tc)" for f
    using advance_runStep [of "tc\<lparr>trace := trace tc @ [Began f]\<rparr>" f 0 JUndefined stack]
    by (simp add: dc_begin_def advance_def)
  then show ?thesis by (simp add: start_dialog_def Let_def)
qed

lemma saved_continue:
  "saved (trace (snd (dc_continue R stack tc))) = saved (trace tc)"
  using advance_continue [of tc R stack] by (simp add: advance_def)

lemma onTurn_saves:
  assumes "onTurn R st a = Inr (st', evs)"
  shows "\<exists>xs. evs = xs @ [SavedUser, SavedConversation] \<and> saved xs = []"
proof (cases "act_type a = ''message''")
  case True
  obtain s1 tc1 where c1: "cancel_check (stored_dialogState st) (new_context st a) = (s1, tc1)"
    by (cases "cancel_check (stored_dialogState st) (new_context st a)")
  obtain s2 tc2 where c2: "dc_continue R s1 tc1 = (s2, tc2)"
    by (cases "dc_continue R s1 tc1")
  obtain s3 tc3 where c3: "start_dialog s2 tc2 = (s3, tc3)"
    by (cases "start_dialog s2 tc2")
  have "saved (trace tc1) = []"
    using saved_cancel_check [of "stored_dialogState st" "new_context st a"] c1
    by (simp add: new_context_def)
  then have "saved (trace tc2) = []"
    using saved_continue [of R s1 tc1] c2 by simp
  then have "saved (trace tc3) = []"
    using saved_start_dialog [of s2 tc2] c3 by simp
  moreover have "evs = trace tc3 @ [SavedUser, SavedConversation]"
    using assms True c1 c2 c3 by (simp add: onTurn_message save_all_eq)
  ultimately show ?thesis by blast
next
  case False
  then show ?thesis
    using assms
    by (auto simp add: onTurn_def save_all_eq Let_def new_context_def sendActivity_def
        split: sum.splits if_splits)
qed

lemma onTurn_message_returns:
  "act_type a = ''message'' \<Longrightarrow> \<exists>st' evs. onTurn R st a = Inr (st', evs)"
  by (simp add: onTurn_message save_all_eq split: prod.splits)

text \<open>
  Claim C4 fails on the code at a conversation update that names no added member (one
  that only removes members, say): reading \<^verbatim>\<open>membersAdded[0].name\<close> throws, and neither
  store is saved. A message turn never throws (\<open>onTurn_message_returns\<close>), and on every
  turn that does not throw the two saves are the last two effects, in order, and the
  only saves (\<open>onTurn_saves\<close>).
\<close>

theorem conversation_update_without_members_saves_nothing:
  "onTurn R st \<lparr>act_type = ''conversationUpdate'', act_text = None, act_membersAdded = None\<rparr> =
     Inl TypeError \<and>
   onTurn R st \<lparr>act_type = ''conversationUpdate'', act_text = None, act_membersAdded = Some []\<rparr> =
     Inl TypeError \<and>
   saved (turn_trace R st
            \<lparr>act_type = ''conversationUpdate'', act_text = None, act_membersAdded = None\<rparr>) = []"
  by (simp add: onTurn_def turn_trace_def first_member_name_def Let_def)

end
